theory Spec2Isabelle
  imports Complex_Main
begin

section \<open>NanoComp: dataset unification and comparative plot orchestration\<close>

text \<open>
  A shallow embedding of \<^verbatim>\<open>nanocomp/NanoComp.py\<close>: the functions \<^verbatim>\<open>get_args\<close> (the
  check after argument parsing), \<^verbatim>\<open>validate_split_runs_file\<close>, \<^verbatim>\<open>change_identifiers\<close>,
  \<^verbatim>\<open>make_plots\<close> and \<^verbatim>\<open>main\<close>. Exceptions are values of the type \<open>error\<close>; the calls
  into the collaborating libraries (nanoget, nanoplotter, nanoplot.utils, the file
  written by \<^verbatim>\<open>to_csv\<close>) are recorded, in order, in a trace of effects.
\<close>

subsection \<open>Errors\<close>

text \<open>
  \<^verbatim>\<open>sys.exit(msg)\<close> raises \<^verbatim>\<open>SystemExit(msg)\<close>, which neither \<^verbatim>\<open>except IndexError\<close> nor
  \<^verbatim>\<open>except Exception\<close> catches. \<open>External\<close> stands for any exception raised inside a
  collaborating library.
\<close>

datatype error =
    SystemExit string
  | IndexError
  | KeyError string
  | External string

subsection \<open>Python strings\<close>

text \<open>
  Strings are lists of 8-bit characters read as ASCII. \<^verbatim>\<open>str.strip()\<close> removes the
  leading and trailing whitespace (the ASCII characters 9--13 and 28--32),
  \<^verbatim>\<open>str.upper()\<close> maps \<^verbatim>\<open>a\<close>--\<^verbatim>\<open>z\<close> to \<^verbatim>\<open>A\<close>--\<^verbatim>\<open>Z\<close>, and \<^verbatim>\<open>str.split(sep)\<close> cuts
  at every occurrence of the separator, so that the empty string has one (empty) field.
\<close>

definition tab :: char where
  "tab = CHR 0x09"

definition newline :: char where
  "newline = CHR 0x0A"

definition isspace :: "char \<Rightarrow> bool" where
  "isspace c = (let n = (of_char c :: nat) in (9 \<le> n \<and> n \<le> 13) \<or> (28 \<le> n \<and> n \<le> 32))"

definition strip :: "string \<Rightarrow> string" where
  "strip s = rev (dropWhile isspace (rev (dropWhile isspace s)))"

definition upper_char :: "char \<Rightarrow> char" where
  "upper_char c =
     (let n = (of_char c :: nat) in if 97 \<le> n \<and> n \<le> 122 then char_of (n - 32) else c)"

definition upper :: "string \<Rightarrow> string" where
  "upper s = map upper_char s"

fun split :: "char \<Rightarrow> string \<Rightarrow> string list" where
  "split sep [] = [[]]"
| "split sep (c # cs) =
     (if c = sep then [] # split sep cs
      else (c # hd (split sep cs)) # tl (split sep cs))"

subsection \<open>Python dictionaries\<close>

text \<open>
  A \<^verbatim>\<open>dict\<close> keeps its entries in insertion order, one per key: storing under a key
  that is present replaces the value in place, storing under a new key appends an
  entry. \<^verbatim>\<open>items()\<close> is the list itself.
\<close>

type_synonym ('k, 'v) dict = "('k \<times> 'v) list"

fun dict_set :: "('k, 'v) dict \<Rightarrow> 'k \<Rightarrow> 'v \<Rightarrow> ('k, 'v) dict" where
  "dict_set [] k v = [(k, v)]"
| "dict_set ((k', v') # d) k v =
     (if k' = k then (k, v) # d else (k', v') # dict_set d k v)"

subsection \<open>The dataset table\<close>

text \<open>
  The result of \<^verbatim>\<open>np.log10\<close>: a finite number, or one of the non-finite values that
  numpy returns (with a warning, not an exception) at zero and at negative numbers.
  Finite results are idealised as real numbers.
\<close>

datatype npfloat = Finite real | NegInf | NaN

definition np_log10 :: "real \<Rightarrow> npfloat" where
  "np_log10 x = (if 0 < x then Finite (log 10 x) else if x = 0 then NegInf else NaN)"

text \<open>
  One row per read, with the columns \<^verbatim>\<open>lengths\<close>, \<^verbatim>\<open>quals\<close>, \<^verbatim>\<open>runIDs\<close> and \<^verbatim>\<open>dataset\<close>
  that the program reads or writes. \<open>percentIdentity\<close> is \<open>None\<close> in a table that has no
  such column (input that is not bam), \<open>log_length\<close> is \<open>None\<close> until the column
  \<^verbatim>\<open>log length\<close> is added by \<^verbatim>\<open>make_plots\<close>.
\<close>

record read_row =
  lengths :: real
  quals :: real
  runIDs :: string
  dataset :: string
  percentIdentity :: "real option"
  log_length :: "npfloat option"

type_synonym dataframe = "read_row list"

subsection \<open>\<^verbatim>\<open>validate_split_runs_file\<close>\<close>

definition header_msg :: string where
  "header_msg =
     ''ERROR: Mandatory header of --split_runs tsv file not found: '' @
     [CHR 0x27] @ ''NAME'' @ [CHR 0x27] @ '', '' @ [CHR 0x27] @ ''RUN_ID'' @ [CHR 0x27]"

definition format_msg :: string where
  "format_msg = ''ERROR: Format of --split_runs tab separated file not as expected''"

text \<open>
  The dictionary comprehension
  \<^verbatim>\<open>{c.split('\t')[1]: c.split('\t')[0] for c in content[1:] if c}\<close>,
  started from the dictionary built so far. Indexing a field that is not there raises
  \<^verbatim>\<open>IndexError\<close>, which ends the comprehension.
\<close>

fun split_dict_of :: "string list \<Rightarrow> (string, string) dict \<Rightarrow> error + (string, string) dict" where
  "split_dict_of [] d = Inr d"
| "split_dict_of (c # cs) d =
     (if c = [] then split_dict_of cs d
      else if length (split tab c) < 2 then Inl IndexError
      else split_dict_of cs (dict_set d (split tab c ! 1) (split tab c ! 0)))"

text \<open>
  The argument is the list that \<^verbatim>\<open>readlines()\<close> returns. \<^verbatim>\<open>content[0]\<close> raises
  \<^verbatim>\<open>IndexError\<close> on a file without lines; the handler turns every \<^verbatim>\<open>IndexError\<close> into
  a \<^verbatim>\<open>sys.exit\<close>.
\<close>

definition validate_split_runs_file :: "string list \<Rightarrow> error + (string, string) dict" where
  "validate_split_runs_file split_runs_file =
     (let content = map strip split_runs_file in
      case content of
        [] \<Rightarrow> Inl (SystemExit format_msg)
      | h # rest \<Rightarrow>
          if split tab (upper h) = [''NAME'', ''RUN_ID''] then
            (case split_dict_of rest [] of
               Inl IndexError \<Rightarrow> Inl (SystemExit format_msg)
             | Inl e \<Rightarrow> Inl e
             | Inr d \<Rightarrow> Inr d)
          else Inl (SystemExit header_msg))"

subsection \<open>\<^verbatim>\<open>change_identifiers\<close>\<close>

text \<open>
  \<^verbatim>\<open>datadf.loc[datadf["runIDs"] == rid, "dataset"] = name\<close> for one entry, then the loop
  over \<^verbatim>\<open>split_dict.items()\<close>. The table is mutated in place; the model returns it.
\<close>

definition set_dataset_where :: "string \<Rightarrow> string \<Rightarrow> dataframe \<Rightarrow> dataframe" where
  "set_dataset_where rid name datadf =
     map (\<lambda>r. if runIDs r = rid then r\<lparr>dataset := name\<rparr> else r) datadf"

fun change_identifiers :: "dataframe \<Rightarrow> (string, string) dict \<Rightarrow> dataframe" where
  "change_identifiers datadf [] = datadf"
| "change_identifiers datadf ((rid, name) # split_dict) =
     change_identifiers (set_dataset_where rid name datadf) split_dict"

subsection \<open>Command-line arguments\<close>

text \<open>
  The namespace that \<^verbatim>\<open>parser.parse_args()\<close> returns. An option taking a list
  (\<^verbatim>\<open>nargs='+'\<close>) is \<open>None\<close> when absent; \<open>split_runs\<close> holds the lines of the opened
  file, or \<open>None\<close> for its default \<^verbatim>\<open>False\<close>.
\<close>

record args =
  threads :: int
  outdir :: string
  prefix :: string
  raw :: bool
  readtype :: string
  split_runs :: "string list option"
  format :: string
  names :: "string list option"
  plot :: string
  title :: "string option"
  fastq :: "string list option"
  summary :: "string list option"
  bam :: "string list option"

text \<open>Truth value of \<^verbatim>\<open>None\<close> or a list: a non-empty list is true.\<close>

definition truthy :: "'a list option \<Rightarrow> bool" where
  "truthy v = (case v of None \<Rightarrow> False | Some xs \<Rightarrow> xs \<noteq> [])"

definition len :: "'a list option \<Rightarrow> nat" where
  "len v = (case v of None \<Rightarrow> 0 | Some xs \<Rightarrow> length xs)"

text \<open>\<^verbatim>\<open>xs[0]\<close>.\<close>

fun first :: "'a list \<Rightarrow> error + 'a" where
  "first [] = Inl IndexError"
| "first (x # xs) = Inr x"

definition names_msg :: string where
  "names_msg = ''ERROR: Number of names (-n) should be same as number of files specified!''"

text \<open>The check that \<^verbatim>\<open>get_args\<close> makes on the parsed namespace before returning it.\<close>

definition get_args :: "args \<Rightarrow> error + args" where
  "get_args parsed =
     (if truthy (names parsed) then
        (case first [len i. i \<leftarrow> [fastq parsed, summary parsed, bam parsed], truthy i] of
           Inl e \<Rightarrow> Inl e
         | Inr n \<Rightarrow>
             if \<not> len (names parsed) = n then Inl (SystemExit names_msg) else Inr parsed)
      else Inr parsed)"

subsection \<open>Collaborators and effects\<close>

record get_input_call =
  gi_source :: string
  gi_files :: "string list"
  gi_threads :: int
  gi_readtype :: string
  gi_names :: "string list option"
  gi_combine :: string

record barplot_call =
  b_df :: dataframe
  b_figformat :: string
  b_path :: string
  b_title :: "string option"

text \<open>\<open>v_log\<close> is true when the call passes \<^verbatim>\<open>log=True\<close>.\<close>

record violin_call =
  v_df :: dataframe
  v_y :: string
  v_figformat :: string
  v_path :: string
  v_violin :: bool
  v_log :: bool
  v_title :: "string option"

text \<open>
  What the program does to the outside, in the order of the trace: the calls
  \<^verbatim>\<open>utils.make_output_dir\<close>, \<^verbatim>\<open>utils.init_logs\<close>, \<^verbatim>\<open>nanoget.get_input\<close>,
  \<^verbatim>\<open>datadf.to_csv\<close> (with the table as it is at the call, and the file name),
  \<^verbatim>\<open>nanoplotter.output_barplot\<close> and \<^verbatim>\<open>nanoplotter.violin_or_box_plot\<close>.
\<close>

datatype effect =
    Make_output_dir string
  | Init_logs
  | Get_input get_input_call
  | To_csv dataframe string
  | Output_barplot barplot_call
  | Violin_or_box_plot violin_call

text \<open>
  The outside world: which calls raise, what \<^verbatim>\<open>nanoplotter.check_valid_format\<close>
  returns, and the table \<^verbatim>\<open>nanoget.get_input\<close> returns.
\<close>

record ext =
  raises :: "effect \<Rightarrow> error option"
  check_valid_format :: "string \<Rightarrow> string"
  get_input :: "get_input_call \<Rightarrow> dataframe"

text \<open>
  An action runs on the trace so far and gives a value or an exception, and the
  trace extended by the calls it made.
\<close>

type_synonym 'a action = "effect list \<Rightarrow> (error + 'a) \<times> effect list"

definition succeed :: "'a \<Rightarrow> 'a action" where
  "succeed x = (\<lambda>tr. (Inr x, tr))"

definition lift :: "error + 'a \<Rightarrow> 'a action" where
  "lift r = (\<lambda>tr. (r, tr))"

definition bnd :: "'a action \<Rightarrow> ('a \<Rightarrow> 'b action) \<Rightarrow> 'b action" where
  "bnd m f = (\<lambda>tr. case m tr of (Inl e, tr') \<Rightarrow> (Inl e, tr') | (Inr x, tr') \<Rightarrow> f x tr')"

definition perform :: "ext \<Rightarrow> effect \<Rightarrow> unit action" where
  "perform world eff =
     (\<lambda>tr. (case raises world eff of None \<Rightarrow> Inr () | Some e \<Rightarrow> Inl e, tr @ [eff]))"

subsection \<open>\<^verbatim>\<open>make_plots\<close>\<close>

text \<open>The first statement: \<^verbatim>\<open>df["log length"] = np.log10(df["lengths"])\<close>.\<close>

definition add_log_length :: "dataframe \<Rightarrow> dataframe" where
  "add_log_length df = map (\<lambda>r. r\<lparr>log_length := Some (np_log10 (lengths r))\<rparr>) df"

text \<open>
  \<^verbatim>\<open>np.percentile(a, q)\<close> with its default method, linear interpolation: on the sorted
  values, the value at the fractional index \<open>(n - 1) * q / 100\<close>. Numbers are
  idealised as reals. An empty array raises.
\<close>

definition np_percentile :: "real list \<Rightarrow> real \<Rightarrow> error + real" where
  "np_percentile a q =
     (if a = [] then Inl IndexError
      else
        let s = sort a;
            n = length a;
            h = (real n - 1) * (q / 100);
            j = nat \<lfloor>h\<rfloor>;
            g = h - real j
        in Inr (s ! j + g * (s ! (min (j + 1) (n - 1)) - s ! j)))"

text \<open>\<^verbatim>\<open>df["percentIdentity"]\<close>: the column, or \<^verbatim>\<open>KeyError\<close> when the table has none.\<close>

definition percentIdentity_column :: "dataframe \<Rightarrow> error + real list" where
  "percentIdentity_column df =
     (case those (map percentIdentity df) of
        None \<Rightarrow> Inl (KeyError ''percentIdentity'')
      | Some col \<Rightarrow> Inr col)"

text \<open>\<^verbatim>\<open>df[df["percentIdentity"] > np.percentile(df["percentIdentity"], 1)]\<close>.\<close>

definition above_percentile :: "dataframe \<Rightarrow> error + dataframe" where
  "above_percentile df =
     (case percentIdentity_column df of
        Inl e \<Rightarrow> Inl e
      | Inr col \<Rightarrow>
          (case np_percentile col 1 of
             Inl e \<Rightarrow> Inl e
           | Inr p \<Rightarrow>
               Inr (filter (\<lambda>r. case percentIdentity r of None \<Rightarrow> False | Some v \<Rightarrow> p < v) df)))"

definition make_plots :: "ext \<Rightarrow> dataframe \<Rightarrow> string \<Rightarrow> args \<Rightarrow> unit action" where
  "make_plots world df0 path a =
     (let df = add_log_length df0;
          violin = (if plot a = ''violin'' then True else False)
      in
      bnd (perform world (Output_barplot
             \<lparr>b_df = df, b_figformat = format a, b_path = path, b_title = title a\<rparr>)) (\<lambda>_.
      bnd (perform world (Violin_or_box_plot
             \<lparr>v_df = df, v_y = ''lengths'', v_figformat = format a, v_path = path,
              v_violin = violin, v_log = False, v_title = title a\<rparr>)) (\<lambda>_.
      bnd (perform world (Violin_or_box_plot
             \<lparr>v_df = df, v_y = ''log length'', v_figformat = format a, v_path = path,
              v_violin = violin, v_log = True, v_title = title a\<rparr>)) (\<lambda>_.
      bnd (perform world (Violin_or_box_plot
             \<lparr>v_df = df, v_y = ''quals'', v_figformat = format a, v_path = path,
              v_violin = violin, v_log = False, v_title = title a\<rparr>)) (\<lambda>_.
      if truthy (bam a) then
        bnd (lift (above_percentile df)) (\<lambda>sub.
        perform world (Violin_or_box_plot
             \<lparr>v_df = sub, v_y = ''percentIdentity'', v_figformat = format a, v_path = path,
              v_violin = violin, v_log = False, v_title = title a\<rparr>))
      else succeed ())))))"

subsection \<open>\<^verbatim>\<open>main\<close>\<close>

text \<open>\<^verbatim>\<open>os.path.join\<close> of two components, on POSIX.\<close>

definition path_join :: "string \<Rightarrow> string \<Rightarrow> string" where
  "path_join p q =
     (if q \<noteq> [] \<and> hd q = CHR ''/'' then q
      else if p = [] \<or> last p = CHR ''/'' then p @ q
      else p @ ''/'' @ q)"

text \<open>
  The body of the \<^verbatim>\<open>try\<close> block. The handler logs the exception and raises it again,
  so the exception of the body is the exception of \<^verbatim>\<open>main\<close>; logging is left out.
\<close>

definition main_body :: "ext \<Rightarrow> args \<Rightarrow> unit action" where
  "main_body world a0 =
     bnd (perform world (Make_output_dir (outdir a0))) (\<lambda>_.
     bnd (perform world Init_logs) (\<lambda>_.
     let a = a0\<lparr>format := check_valid_format world (format a0)\<rparr>;
         sources = [fastq a, bam a, summary a];
         sourcename = [''fastq'', ''bam'', ''summary'']
     in
     bnd (case split_runs a of
            None \<Rightarrow> succeed []
          | Some file \<Rightarrow> lift (validate_split_runs_file file)) (\<lambda>split_dict.
     bnd (lift (first [n. (n, s) \<leftarrow> zip sourcename sources, truthy s])) (\<lambda>source.
     bnd (lift (first [f. f \<leftarrow> sources, truthy f])) (\<lambda>files.
     let call = \<lparr>gi_source = source, gi_files = (case files of None \<Rightarrow> [] | Some fs \<Rightarrow> fs),
                 gi_threads = threads a, gi_readtype = readtype a, gi_names = names a,
                 gi_combine = ''track''\<rparr>
     in
     bnd (perform world (Get_input call)) (\<lambda>_.
     let datadf = get_input world call in
     bnd (if raw a then perform world (To_csv datadf ''NanoComp-data.tsv.gz'')
          else succeed ()) (\<lambda>_.
     let datadf' = (if split_runs a \<noteq> None then change_identifiers datadf split_dict
                    else datadf)
     in make_plots world datadf' (path_join (outdir a) (prefix a)) a)))))))"

text \<open>
  \<^verbatim>\<open>main\<close>: the calls made, in order, and the exception that ended the run, if any.
  \<^verbatim>\<open>get_args\<close> runs first, outside the \<^verbatim>\<open>try\<close> block.
\<close>

definition main :: "ext \<Rightarrow> args \<Rightarrow> effect list \<times> error option" where
  "main world parsed =
     (case get_args parsed of
        Inl e \<Rightarrow> ([], Some e)
      | Inr a \<Rightarrow>
          (case main_body world a [] of
             (Inl e, tr) \<Rightarrow> (tr, Some e)
           | (Inr _, tr) \<Rightarrow> (tr, None)))"

subsection \<open>Auxiliary definitions for the statements\<close>

text \<open>What the loop of \<^verbatim>\<open>change_identifiers\<close> does to a single row.\<close>

fun relabel :: "(string, string) dict \<Rightarrow> read_row \<Rightarrow> read_row" where
  "relabel [] r = r"
| "relabel ((rid, name) # d) r = relabel d (if runIDs r = rid then r\<lparr>dataset := name\<rparr> else r)"



text \<open>
  The percentile as the specification defines it: linear interpolation between the
  closest ranks, that is, between the sorted values at the floor and at the ceiling
  of the fractional index.
\<close>

definition percentile_linear :: "real list \<Rightarrow> real \<Rightarrow> real" where
  "percentile_linear a q =
     (let s = sort a;
          h = (real (length a) - 1) * (q / 100);
          lo = nat \<lfloor>h\<rfloor>;
          hi = nat \<lceil>h\<rceil>
      in s ! lo + (h - real lo) * (s ! hi - s ! lo))"


text \<open>Every call that the action makes is one that \<open>P\<close> allows.\<close>

definition appends :: "(effect \<Rightarrow> bool) \<Rightarrow> 'a action \<Rightarrow> bool" where
  "appends P m \<longleftrightarrow> (\<forall>tr. \<exists>ps. snd (m tr) = tr @ ps \<and> (\<forall>eff \<in> set ps. P eff))"

text \<open>
  Concrete inputs: reads of two runs as read from fastq files, reads of a bam file, the
  default namespace of the parser, a world in which no call raises and ingestion returns
  the given table, and mapping files.
\<close>

definition read_R1 :: read_row where
  "read_R1 = \<lparr>lengths = 1000, quals = 12, runIDs = ''R1'', dataset = ''A'',
              percentIdentity = None, log_length = None\<rparr>"

definition read_R2 :: read_row where
  "read_R2 = \<lparr>lengths = 10, quals = 9, runIDs = ''R2'', dataset = ''B'',
              percentIdentity = None, log_length = None\<rparr>"

definition aligned :: dataframe where
  "aligned =
     [\<lparr>lengths = 100, quals = 10, runIDs = ''R1'', dataset = ''A'',
       percentIdentity = Some 90, log_length = None\<rparr>,
      \<lparr>lengths = 10, quals = 11, runIDs = ''R1'', dataset = ''A'',
       percentIdentity = Some 50, log_length = None\<rparr>,
      \<lparr>lengths = 1, quals = 12, runIDs = ''R2'', dataset = ''B'',
       percentIdentity = Some 80, log_length = None\<rparr>]"

definition cli :: args where
  "cli = \<lparr>threads = 4, outdir = ''.'', prefix = [], raw = False, readtype = ''1D'',
           split_runs = None, format = ''png'', names = None, plot = ''violin'', title = None,
           fastq = None, summary = None, bam = None\<rparr>"

definition quiet :: "dataframe \<Rightarrow> ext" where
  "quiet df = \<lparr>raises = (\<lambda>eff. None), check_valid_format = (\<lambda>f. f), get_input = (\<lambda>call. df)\<rparr>"

definition relabel_file :: "string list" where
  "relabel_file =
     [''NAME'' @ [tab] @ ''RUN_ID'' @ [newline], ''SampleX'' @ [tab] @ ''R1'' @ [newline]]"


definition relabel_args :: args where
  "relabel_args = cli\<lparr>fastq := Some [''reads.fastq''], raw := True, split_runs := Some relabel_file\<rparr>"

section \<open>Properties\<close>

subsection \<open>Remapping of run identifiers\<close>

lemma change_identifiers_map: "change_identifiers datadf d = map (relabel d) datadf"
proof (induction d arbitrary: datadf)
  case Nil
  have "relabel [] = id" by (rule ext) simp
  then show ?case by simp
next
  case (Cons e d)
  obtain rid name where "e = (rid, name)" by (cases e)
  with Cons show ?case by (simp add: set_dataset_where_def comp_def)
qed

lemma relabel_frame:
  "lengths (relabel d r) = lengths r \<and> quals (relabel d r) = quals r \<and>
   runIDs (relabel d r) = runIDs r \<and> percentIdentity (relabel d r) = percentIdentity r \<and>
   log_length (relabel d r) = log_length r"
  by (induction d arbitrary: r) auto

lemma relabel_unmatched: "runIDs r \<notin> fst ` set d \<Longrightarrow> relabel d r = r"
  by (induction d arbitrary: r) auto

lemma relabel_matched:
  "distinct (map fst d) \<Longrightarrow> (runIDs r, name) \<in> set d \<Longrightarrow> dataset (relabel d r) = name"
proof (induction d arbitrary: r)
  case Nil
  then show ?case by simp
next
  case (Cons e d)
  obtain rid n where e: "e = (rid, n)" by (cases e)
  show ?case
  proof (cases "runIDs r = rid")
    case True
    with Cons.prems e have "n = name" by (auto simp: image_iff)
    moreover from True Cons.prems e have "runIDs (r\<lparr>dataset := n\<rparr>) \<notin> fst ` set d" by auto
    ultimately show ?thesis using True e by (simp add: relabel_unmatched)
  next
    case False
    with Cons e show ?thesis by auto
  qed
qed

lemma relabel_dataset_range: "dataset (relabel d r) = dataset r \<or> dataset (relabel d r) \<in> snd ` set d"
proof (induction d arbitrary: r)
  case Nil
  then show ?case by simp
next
  case (Cons e d)
  obtain rid n where e: "e = (rid, n)" by (cases e)
  from Cons.IH [of "if runIDs r = rid then r\<lparr>dataset := n\<rparr> else r"] e
  show ?case by (auto split: if_splits)
qed

text \<open>
  C2. After \<^verbatim>\<open>change_identifiers\<close>, on a dictionary (keys distinct), the table has as
  many rows as before; every row whose \<open>runIDs\<close> is a key has the \<open>dataset\<close> stored
  under that key; every row whose \<open>runIDs\<close> is no key keeps its \<open>dataset\<close>; hence every
  \<open>dataset\<close> of the result is an original label or a name of the dictionary.
\<close>

theorem change_identifiers_relabels:
  assumes "distinct (map fst split_dict)"
  shows "length (change_identifiers datadf split_dict) = length datadf \<and>
    (\<forall>i < length datadf.
       (\<forall>name. (runIDs (datadf ! i), name) \<in> set split_dict \<longrightarrow>
          dataset (change_identifiers datadf split_dict ! i) = name) \<and>
       (runIDs (datadf ! i) \<notin> fst ` set split_dict \<longrightarrow>
          dataset (change_identifiers datadf split_dict ! i) = dataset (datadf ! i))) \<and>
    dataset ` set (change_identifiers datadf split_dict)
      \<subseteq> dataset ` set datadf \<union> snd ` set split_dict"
proof (intro conjI allI impI)
  show "length (change_identifiers datadf split_dict) = length datadf"
    by (simp add: change_identifiers_map)
next
  fix i name
  assume "i < length datadf" "(runIDs (datadf ! i), name) \<in> set split_dict"
  with assms show "dataset (change_identifiers datadf split_dict ! i) = name"
    by (simp add: change_identifiers_map relabel_matched)
next
  fix i
  assume "i < length datadf" "runIDs (datadf ! i) \<notin> fst ` set split_dict"
  then show "dataset (change_identifiers datadf split_dict ! i) = dataset (datadf ! i)"
    by (simp add: change_identifiers_map relabel_unmatched)
next
  show "dataset ` set (change_identifiers datadf split_dict)
      \<subseteq> dataset ` set datadf \<union> snd ` set split_dict"
    using relabel_dataset_range [of split_dict] by (auto simp: change_identifiers_map)
qed

theorem change_identifiers_relabels_witness:
  "distinct (map fst [(''R1'', ''SampleX'')]) \<and>
   map dataset (change_identifiers [read_R1, read_R2] [(''R1'', ''SampleX'')]) = [''SampleX'', ''B'']"
  using change_identifiers_relabels [of "[(''R1'', ''SampleX'')]" "[read_R1, read_R2]"]
  by (simp add: read_R1_def read_R2_def set_dataset_where_def)

text \<open>
  C10. \<^verbatim>\<open>change_identifiers\<close> changes nothing but the column \<open>dataset\<close>: the number of
  rows and the columns \<open>lengths\<close>, \<open>quals\<close>, \<open>runIDs\<close>, \<open>percentIdentity\<close> and
  \<open>log_length\<close> are as before, for every table and every dictionary.
\<close>

theorem change_identifiers_frame:
  "length (change_identifiers datadf split_dict) = length datadf \<and>
   map lengths (change_identifiers datadf split_dict) = map lengths datadf \<and>
   map quals (change_identifiers datadf split_dict) = map quals datadf \<and>
   map runIDs (change_identifiers datadf split_dict) = map runIDs datadf \<and>
   map percentIdentity (change_identifiers datadf split_dict) = map percentIdentity datadf \<and>
   map log_length (change_identifiers datadf split_dict) = map log_length datadf"
  by (simp add: change_identifiers_map relabel_frame)

subsection \<open>The mapping file\<close>













lemma validate_relabel_file: "validate_split_runs_file relabel_file = Inr [(''R1'', ''SampleX'')]"
  by code_simp











subsection \<open>The derived column\<close>

text \<open>
  C9. The first statement of \<^verbatim>\<open>make_plots\<close> gives every row the value
  \<^verbatim>\<open>np.log10(lengths)\<close> in the column \<^verbatim>\<open>log length\<close> and changes nothing else: for a
  positive length it is the logarithm to base 10 of the length, for a length that is
  not positive it is one of the non-finite values, without any guard.
\<close>

theorem add_log_length_rows:
  "length (add_log_length df) = length df \<and>
   (\<forall>i < length df.
      log_length (add_log_length df ! i) = Some (np_log10 (lengths (df ! i))) \<and>
      (0 < lengths (df ! i) \<longrightarrow>
         log_length (add_log_length df ! i) = Some (Finite (log 10 (lengths (df ! i))))) \<and>
      (lengths (df ! i) \<le> 0 \<longrightarrow>
         log_length (add_log_length df ! i) \<in> {Some NegInf, Some NaN}) \<and>
      add_log_length df ! i = (df ! i)\<lparr>log_length := log_length (add_log_length df ! i)\<rparr>)"
  by (auto simp: add_log_length_def np_log10_def)

theorem add_log_length_rows_witness:
  "map log_length (add_log_length [read_R2, read_R2\<lparr>lengths := 0\<rparr>, read_R2\<lparr>lengths := - 1\<rparr>])
     = [Some (Finite 1), Some NegInf, Some NaN]"
  using add_log_length_rows [of "[read_R2, read_R2\<lparr>lengths := 0\<rparr>, read_R2\<lparr>lengths := - 1\<rparr>]"]
  by (simp add: add_log_length_def np_log10_def read_R2_def)

subsection \<open>The plot requests\<close>

lemma bnd_perform:
  "bnd (perform world eff) f tr =
     (case raises world eff of None \<Rightarrow> f () (tr @ [eff]) | Some e \<Rightarrow> (Inl e, tr @ [eff]))"
  by (simp add: bnd_def perform_def split: option.splits)

lemma bnd_lift:
  "bnd (lift r) f tr = (case r of Inl e \<Rightarrow> (Inl e, tr) | Inr x \<Rightarrow> f x tr)"
  by (simp add: bnd_def lift_def split: sum.splits)

lemma bnd_succeed: "bnd (succeed x) f tr = f x tr"
  by (simp add: bnd_def succeed_def)

lemma perform_apply:
  "perform world eff tr = (case raises world eff of None \<Rightarrow> Inr () | Some e \<Rightarrow> Inl e, tr @ [eff])"
  by (simp add: perform_def)

text \<open>The percentile that numpy computes is the percentile of the specification.\<close>

lemma np_percentile_linear:
  assumes "a \<noteq> []" and "0 \<le> q" and "q \<le> 100"
  shows "np_percentile a q = Inr (percentile_linear a q)"
proof -
  define n where "n = length a"
  define h where "h = (real n - 1) * (q / 100)"
  define j where "j = nat \<lfloor>h\<rfloor>"
  define s where "s = sort a"
  have np: "np_percentile a q = Inr (s ! j + (h - real j) * (s ! (min (j + 1) (n - 1)) - s ! j))"
    using assms(1) by (simp add: np_percentile_def Let_def n_def h_def j_def s_def)
  have pl: "percentile_linear a q = s ! j + (h - real j) * (s ! nat \<lceil>h\<rceil> - s ! j)"
    by (simp add: percentile_linear_def Let_def n_def h_def j_def s_def)
  from assms have n: "1 \<le> n" by (cases a) (auto simp: n_def)
  from assms n have h0: "0 \<le> h" by (simp add: h_def)
  have "(real n - 1) * (q / 100) \<le> (real n - 1) * 1"
    using assms n by (intro mult_left_mono) auto
  then have hn: "h \<le> real n - 1" by (simp add: h_def)
  have jh: "real j \<le> h" using h0 by (simp add: j_def)
  show ?thesis
  proof (cases "h = real j")
    case True
    then have "h - real j = 0" by simp
    then show ?thesis by (simp only: np pl mult_zero_left)
  next
    case False
    with jh have lt: "real j < h" by simp
    have "h < real j + 1" using h0 unfolding j_def by linarith
    with lt have "\<lceil>h\<rceil> = int j + 1" by (simp add: ceiling_eq)
    then have c: "nat \<lceil>h\<rceil> = j + 1" by simp
    from lt hn have "real j < real n - 1" by simp
    then have "j + 1 \<le> n - 1" using n by linarith
    then have m: "min (j + 1) (n - 1) = j + 1" by simp
    show ?thesis by (simp only: np pl c m)
  qed
qed

lemma percentile_aligned: "percentile_linear [90, 50, 80] 1 = 253 / 5"
  by (simp add: percentile_linear_def)

lemma those_percentIdentity:
  "those (map percentIdentity df) = Some col \<longleftrightarrow>
     (\<forall>r \<in> set df. percentIdentity r \<noteq> None) \<and> col = map (the \<circ> percentIdentity) df"
  by (induction df arbitrary: col) (auto split: option.splits)


lemma above_percentile_Inr:
  "above_percentile df = Inr sub \<longleftrightarrow>
     df \<noteq> [] \<and> (\<forall>r \<in> set df. percentIdentity r \<noteq> None) \<and>
     sub = [r \<leftarrow> df. percentile_linear (map (the \<circ> percentIdentity) df) 1
                      < the (percentIdentity r)]"
proof (cases "those (map percentIdentity df)")
  case None
  then have "\<not> (\<forall>r \<in> set df. percentIdentity r \<noteq> None)"
    using those_percentIdentity [of df] by auto
  with None show ?thesis
    by (simp add: above_percentile_def percentIdentity_column_def)
next
  case (Some col)
  then have all: "\<forall>r \<in> set df. percentIdentity r \<noteq> None"
    and col: "col = map (the \<circ> percentIdentity) df"
    using those_percentIdentity [of df col] by auto
  show ?thesis
  proof (cases "df = []")
    case True
    with Some col show ?thesis
      by (simp add: above_percentile_def percentIdentity_column_def np_percentile_def)
  next
    case False
    let ?col = "map (the \<circ> percentIdentity) df"
    from Some col have S: "those (map percentIdentity df) = Some ?col" by simp
    from False have p: "np_percentile ?col 1 = Inr (percentile_linear ?col 1)"
      by (simp add: np_percentile_linear)
    have f: "[r \<leftarrow> df. case percentIdentity r of None \<Rightarrow> False
                     | Some v \<Rightarrow> percentile_linear ?col 1 < v] =
          [r \<leftarrow> df. percentile_linear ?col 1 < the (percentIdentity r)]"
      using all by (intro filter_cong) auto
    have "above_percentile df =
          Inr [r \<leftarrow> df. percentile_linear ?col 1 < the (percentIdentity r)]"
      by (simp add: above_percentile_def percentIdentity_column_def S p f)
    with False all show ?thesis by auto
  qed
qed


lemma make_plots_quiet:
  assumes "\<forall>eff. raises world eff = None"
    and "truthy (bam a) \<longrightarrow> above_percentile (add_log_length df) = Inr sub"
  shows "make_plots world df path a tr =
    (Inr (),
     tr @
     [Output_barplot
        \<lparr>b_df = add_log_length df, b_figformat = format a, b_path = path, b_title = title a\<rparr>,
      Violin_or_box_plot
        \<lparr>v_df = add_log_length df, v_y = ''lengths'', v_figformat = format a, v_path = path,
         v_violin = (plot a = ''violin''), v_log = False, v_title = title a\<rparr>,
      Violin_or_box_plot
        \<lparr>v_df = add_log_length df, v_y = ''log length'', v_figformat = format a, v_path = path,
         v_violin = (plot a = ''violin''), v_log = True, v_title = title a\<rparr>,
      Violin_or_box_plot
        \<lparr>v_df = add_log_length df, v_y = ''quals'', v_figformat = format a, v_path = path,
         v_violin = (plot a = ''violin''), v_log = False, v_title = title a\<rparr>] @
     (if truthy (bam a) then
        [Violin_or_box_plot
           \<lparr>v_df = sub, v_y = ''percentIdentity'', v_figformat = format a, v_path = path,
            v_violin = (plot a = ''violin''), v_log = False, v_title = title a\<rparr>]
      else []))"
  using assms
  by (simp add: make_plots_def Let_def bnd_perform bnd_lift perform_apply succeed_def)

lemma make_plots_trace:
  "\<exists>ps. snd (make_plots world df path a tr) = tr @ ps \<and> snd (make_plots world df path a []) = ps
     \<and> fst (make_plots world df path a tr) = fst (make_plots world df path a [])"
  by (simp add: make_plots_def Let_def bnd_perform bnd_lift perform_apply succeed_def
        split: option.splits sum.splits)

lemma make_plots_snd:
  "make_plots world df path a tr0 = (r, tr) \<Longrightarrow> tr = tr0 @ snd (make_plots world df path a [])"
  using make_plots_trace [of world df path a tr0] by auto

lemma make_plots_issued:
  assumes "eff \<in> set (snd (make_plots world df path a []))"
  shows "eff = Output_barplot
           \<lparr>b_df = add_log_length df, b_figformat = format a, b_path = path, b_title = title a\<rparr>
    \<or> (\<exists>y lg. eff = Violin_or_box_plot
           \<lparr>v_df = add_log_length df, v_y = y, v_figformat = format a, v_path = path,
            v_violin = (plot a = ''violin''), v_log = lg, v_title = title a\<rparr>
          \<and> (y, lg) \<in> {(''lengths'', False), (''log length'', True), (''quals'', False)})
    \<or> (\<exists>sub. truthy (bam a) \<and> above_percentile (add_log_length df) = Inr sub \<and>
          eff = Violin_or_box_plot
           \<lparr>v_df = sub, v_y = ''percentIdentity'', v_figformat = format a, v_path = path,
            v_violin = (plot a = ''violin''), v_log = False, v_title = title a\<rparr>)"
  using assms
  by (auto simp: make_plots_def Let_def bnd_perform bnd_lift perform_apply succeed_def
        split: option.splits sum.splits if_splits)

text \<open>
  In every run, also one that an exception cuts short, the requests issued are an
  initial segment of the fixed sequence.
\<close>

lemma make_plots_initial_segment:
  "\<exists>sub rest.
     [Output_barplot
        \<lparr>b_df = add_log_length df, b_figformat = format a, b_path = path, b_title = title a\<rparr>,
      Violin_or_box_plot
        \<lparr>v_df = add_log_length df, v_y = ''lengths'', v_figformat = format a, v_path = path,
         v_violin = (plot a = ''violin''), v_log = False, v_title = title a\<rparr>,
      Violin_or_box_plot
        \<lparr>v_df = add_log_length df, v_y = ''log length'', v_figformat = format a, v_path = path,
         v_violin = (plot a = ''violin''), v_log = True, v_title = title a\<rparr>,
      Violin_or_box_plot
        \<lparr>v_df = add_log_length df, v_y = ''quals'', v_figformat = format a, v_path = path,
         v_violin = (plot a = ''violin''), v_log = False, v_title = title a\<rparr>] @
     (if truthy (bam a) then
        [Violin_or_box_plot
           \<lparr>v_df = sub, v_y = ''percentIdentity'', v_figformat = format a, v_path = path,
            v_violin = (plot a = ''violin''), v_log = False, v_title = title a\<rparr>]
      else [])
     = snd (make_plots world df path a []) @ rest"
  by (simp add: make_plots_def Let_def bnd_perform bnd_lift perform_apply succeed_def
        split: option.splits sum.splits)

text \<open>
  Every request carries the table with the derived column, or rows of it: the values of
  \<^verbatim>\<open>log length\<close>, finite or not, reach the plotting library as they are.
\<close>

lemma make_plots_tables:
  assumes "eff \<in> set (snd (make_plots world df path a []))"
  shows "case eff of
           Output_barplot c \<Rightarrow> b_df c = add_log_length df
         | Violin_or_box_plot c \<Rightarrow>
             (if v_y c = ''percentIdentity'' then set (v_df c) \<subseteq> set (add_log_length df)
              else v_df c = add_log_length df)
         | _ \<Rightarrow> False"
  using make_plots_issued [OF assms] by (auto simp: above_percentile_Inr)



text \<open>
  C4. Without bam input no request for \<^verbatim>\<open>percentIdentity\<close> is issued. Every request for
  \<^verbatim>\<open>percentIdentity\<close> that is issued comes from bam input and carries exactly the rows of
  the full table whose \<open>percentIdentity\<close> is strictly greater than the first percentile
  (linear interpolation between the closest ranks) of that column over the full table.
  With bam input, a table that is not empty and has the column, and no call raising,
  the request is issued.
\<close>

theorem identity_plot_subset:
  "(\<not> truthy (bam a) \<longrightarrow>
      (\<forall>c. Violin_or_box_plot c \<in> set (snd (make_plots world df path a [])) \<longrightarrow>
           v_y c \<noteq> ''percentIdentity'')) \<and>
   (\<forall>c. Violin_or_box_plot c \<in> set (snd (make_plots world df path a [])) \<and>
        v_y c = ''percentIdentity'' \<longrightarrow>
        truthy (bam a) \<and>
        v_df c = [r \<leftarrow> add_log_length df.
                    percentile_linear (map (the \<circ> percentIdentity) df) 1
                      < the (percentIdentity r)]) \<and>
   (truthy (bam a) \<and> (\<forall>eff. raises world eff = None) \<and> df \<noteq> [] \<and>
    (\<forall>r \<in> set df. percentIdentity r \<noteq> None) \<longrightarrow>
      (\<exists>c. Violin_or_box_plot c \<in> set (snd (make_plots world df path a [])) \<and>
           v_y c = ''percentIdentity''))"
proof (intro conjI allI impI)
  fix c
  assume "\<not> truthy (bam a)" "Violin_or_box_plot c \<in> set (snd (make_plots world df path a []))"
  then show "v_y c \<noteq> ''percentIdentity''"
    using make_plots_issued [of "Violin_or_box_plot c" world df path a] by auto
next
  fix c
  assume c: "Violin_or_box_plot c \<in> set (snd (make_plots world df path a [])) \<and>
    v_y c = ''percentIdentity''"
  then obtain sub where b: "truthy (bam a)"
    and sub: "above_percentile (add_log_length df) = Inr sub" and v: "v_df c = sub"
    using make_plots_issued [of "Violin_or_box_plot c" world df path a] by auto
  from b show "truthy (bam a)" .
  have "map (the \<circ> percentIdentity) (add_log_length df) = map (the \<circ> percentIdentity) df"
    by (simp add: add_log_length_def comp_def)
  with sub v
  show "v_df c = [r \<leftarrow> add_log_length df.
                    percentile_linear (map (the \<circ> percentIdentity) df) 1
                      < the (percentIdentity r)]"
    by (simp add: above_percentile_Inr)
next
  assume h: "truthy (bam a) \<and> (\<forall>eff. raises world eff = None) \<and> df \<noteq> [] \<and>
    (\<forall>r \<in> set df. percentIdentity r \<noteq> None)"
  then have "\<exists>sub. above_percentile (add_log_length df) = Inr sub"
    by (simp add: above_percentile_Inr) (simp add: add_log_length_def)
  then obtain sub where "above_percentile (add_log_length df) = Inr sub" ..
  with h have "Violin_or_box_plot
           \<lparr>v_df = sub, v_y = ''percentIdentity'', v_figformat = format a, v_path = path,
            v_violin = (plot a = ''violin''), v_log = False, v_title = title a\<rparr>
        \<in> set (snd (make_plots world df path a []))"
    by (simp add: make_plots_quiet)
  then show "\<exists>c. Violin_or_box_plot c \<in> set (snd (make_plots world df path a [])) \<and>
           v_y c = ''percentIdentity''"
    by (intro exI conjI) auto
qed

theorem identity_plot_subset_witness:
  "map percentIdentity
     (concat (map (\<lambda>eff. case eff of
                      Violin_or_box_plot c \<Rightarrow> if v_y c = ''percentIdentity'' then v_df c else []
                    | _ \<Rightarrow> [])
        (snd (make_plots (quiet []) aligned ''out'' (cli\<lparr>bam := Some [''reads.bam'']\<rparr>) []))))
   = [Some 90, Some 80] \<and>
   [eff \<leftarrow> snd (make_plots (quiet []) [read_R1, read_R2] ''out''
                   (cli\<lparr>fastq := Some [''reads.fastq'']\<rparr>) []).
      case eff of Violin_or_box_plot c \<Rightarrow> v_y c = ''percentIdentity'' | _ \<Rightarrow> False] = []"
proof -
  have "map percentIdentity
     (concat (map (\<lambda>eff. case eff of
                      Violin_or_box_plot c \<Rightarrow> if v_y c = ''percentIdentity'' then v_df c else []
                    | _ \<Rightarrow> [])
        (snd (make_plots (quiet []) aligned ''out'' (cli\<lparr>bam := Some [''reads.bam'']\<rparr>) []))))
   = [Some 90, Some 80]"
    using identity_plot_subset [of "cli\<lparr>bam := Some [''reads.bam'']\<rparr>" "quiet []" aligned "''out''"]
    by (simp add: make_plots_quiet [where sub = "[r \<leftarrow> add_log_length aligned. 253 / 5 < the (percentIdentity r)]"]
          above_percentile_Inr quiet_def cli_def truthy_def aligned_def add_log_length_def
          percentile_aligned)
  moreover
  have "[eff \<leftarrow> snd (make_plots (quiet []) [read_R1, read_R2] ''out''
                   (cli\<lparr>fastq := Some [''reads.fastq'']\<rparr>) []).
      case eff of Violin_or_box_plot c \<Rightarrow> v_y c = ''percentIdentity'' | _ \<Rightarrow> False] = []"
    using identity_plot_subset [of "cli\<lparr>fastq := Some [''reads.fastq'']\<rparr>" "quiet []"
        "[read_R1, read_R2]" "''out''"]
    by (simp add: make_plots_quiet quiet_def cli_def truthy_def)
  ultimately show ?thesis by simp
qed

subsection \<open>The whole run\<close>

lemma appends_succeed: "appends P (succeed x)"
  by (simp add: appends_def succeed_def)

lemma appends_lift: "appends P (lift r)"
  by (simp add: appends_def lift_def)

lemma appends_perform: "P eff \<Longrightarrow> appends P (perform world eff)"
  by (simp add: appends_def perform_def)

lemma appends_bnd:
  assumes "appends P m" and "\<And>x. appends P (f x)"
  shows "appends P (bnd m f)"
  unfolding appends_def
proof
  fix tr
  from assms(1) obtain ps where ps: "snd (m tr) = tr @ ps" "\<forall>eff \<in> set ps. P eff"
    unfolding appends_def by blast
  show "\<exists>qs. snd (bnd m f tr) = tr @ qs \<and> (\<forall>eff \<in> set qs. P eff)"
  proof (cases "m tr")
    case (Pair r tr1)
    with ps have tr1: "tr1 = tr @ ps" by simp
    show ?thesis
    proof (cases r)
      case (Inl e)
      with Pair ps show ?thesis by (simp add: bnd_def)
    next
      case (Inr x)
      from assms(2) [of x] obtain qs where "snd (f x tr1) = tr1 @ qs" "\<forall>eff \<in> set qs. P eff"
        unfolding appends_def by blast
      with Pair Inr ps tr1 show ?thesis by (auto simp: bnd_def)
    qed
  qed
qed

lemma appends_make_plots:
  assumes "\<And>c. P (Output_barplot c)" and "\<And>c. P (Violin_or_box_plot c)"
  shows "appends P (make_plots world df path a)"
  unfolding make_plots_def Let_def
  by (intro appends_bnd appends_perform assms appends_succeed appends_lift
        if_split [where P = "appends P", THEN iffD2] conjI impI)

lemma main_body_appends:
  "appends (\<lambda>eff. \<forall>t f. eff = To_csv t f \<longrightarrow>
       raw a \<and> f = ''NanoComp-data.tsv.gz'' \<and> (\<exists>call. t = get_input world call))
     (main_body world a)"
  unfolding main_body_def Let_def
  by (intro appends_bnd appends_perform appends_succeed appends_lift appends_make_plots
        if_split [where P = "appends _", THEN iffD2]
        option.split [where P = "appends _", THEN iffD2] conjI impI allI) auto

lemma bnd_InrE:
  assumes "bnd m f tr = (Inr y, tr')"
  obtains x tr1 where "m tr = (Inr x, tr1)" and "f x tr1 = (Inr y, tr')"
  using assms by (auto simp: bnd_def split: prod.splits sum.splits)

lemma main_body_completes:
  assumes "main_body world a [] = (Inr u, tr)"
  shows "\<exists>call d.
     (case split_runs a of None \<Rightarrow> d = [] | Some file \<Rightarrow> validate_split_runs_file file = Inr d) \<and>
     tr = [Make_output_dir (outdir a), Init_logs, Get_input call] @
          (if raw a then [To_csv (get_input world call) ''NanoComp-data.tsv.gz''] else []) @
          snd (make_plots world (change_identifiers (get_input world call) d)
                 (path_join (outdir a) (prefix a))
                 (a\<lparr>format := check_valid_format world (format a)\<rparr>) [])"
  apply (insert assms [unfolded main_body_def Let_def])
  apply (erule bnd_InrE)+
  apply (drule make_plots_snd)
  apply (cases "raw a"; cases "split_runs a")
     apply (auto simp: perform_def lift_def succeed_def)
  done

lemma get_args_Inr: "get_args parsed = Inr a \<Longrightarrow> a = parsed"
  by (auto simp: get_args_def split: if_splits sum.splits)

lemma main_trace:
  "fst (main world parsed) = [] \<or> fst (main world parsed) = snd (main_body world parsed [])"
  by (auto simp: main_def split: sum.splits prod.splits dest: get_args_Inr)

lemma main_completes:
  assumes "snd (main world parsed) = None"
  shows "\<exists>u. main_body world parsed [] = (Inr u, fst (main world parsed))"
  using assms by (auto simp: main_def split: sum.splits prod.splits dest: get_args_Inr)

lemma main_relabel_args:
  "main (quiet [read_R1, read_R2]) relabel_args =
     ([Make_output_dir ''.'', Init_logs,
       Get_input \<lparr>gi_source = ''fastq'', gi_files = [''reads.fastq''], gi_threads = 4,
                  gi_readtype = ''1D'', gi_names = None, gi_combine = ''track''\<rparr>,
       To_csv [read_R1, read_R2] ''NanoComp-data.tsv.gz''] @
      snd (make_plots (quiet [read_R1, read_R2])
             (change_identifiers [read_R1, read_R2] [(''R1'', ''SampleX'')]) ''./'' relabel_args []),
      None)"
  using make_plots_quiet [of "quiet [read_R1, read_R2]" relabel_args
      "change_identifiers [read_R1, read_R2] [(''R1'', ''SampleX'')]" "[]" "''./''"]
  by (simp add: main_def get_args_def main_body_def Let_def relabel_args_def cli_def quiet_def
        truthy_def bnd_perform bnd_succeed bnd_lift validate_relabel_file path_join_def)



text \<open>
  C1. The table written by the raw export is the table as \<^verbatim>\<open>nanoget.get_input\<close> returned
  it, under the fixed file name, and only when \<^verbatim>\<open>--raw\<close> is set. In a run with \<^verbatim>\<open>--raw\<close>
  that completes, the export comes right after ingestion; the run identifiers are
  remapped and the column \<^verbatim>\<open>log length\<close> is derived afterwards, for the plot requests
  only.
\<close>

theorem raw_export_before_remap:
  "(\<forall>t f. To_csv t f \<in> set (fst (main world parsed)) \<longrightarrow>
      raw parsed \<and> f = ''NanoComp-data.tsv.gz'' \<and> (\<exists>call. t = get_input world call)) \<and>
   (raw parsed \<and> snd (main world parsed) = None \<longrightarrow>
      (\<exists>call d.
         (case split_runs parsed of None \<Rightarrow> d = []
          | Some file \<Rightarrow> validate_split_runs_file file = Inr d) \<and>
         fst (main world parsed) =
           [Make_output_dir (outdir parsed), Init_logs, Get_input call,
            To_csv (get_input world call) ''NanoComp-data.tsv.gz''] @
           snd (make_plots world (change_identifiers (get_input world call) d)
                  (path_join (outdir parsed) (prefix parsed))
                  (parsed\<lparr>format := check_valid_format world (format parsed)\<rparr>) [])))"
proof -
  have "raw parsed \<and> f = ''NanoComp-data.tsv.gz'' \<and> (\<exists>call. t = get_input world call)"
    if m: "To_csv t f \<in> set (fst (main world parsed))" for t f
  proof -
    from m main_trace [of world parsed]
    have "To_csv t f \<in> set (snd (main_body world parsed []))" by auto
    moreover from main_body_appends [of parsed world]
    obtain ps where "snd (main_body world parsed []) = [] @ ps"
      and "\<forall>eff \<in> set ps. \<forall>t f. eff = To_csv t f \<longrightarrow>
         raw parsed \<and> f = ''NanoComp-data.tsv.gz'' \<and> (\<exists>call. t = get_input world call)"
      unfolding appends_def by blast
    ultimately show ?thesis by auto
  qed
  moreover
  have "\<exists>call d.
         (case split_runs parsed of None \<Rightarrow> d = []
          | Some file \<Rightarrow> validate_split_runs_file file = Inr d) \<and>
         fst (main world parsed) =
           [Make_output_dir (outdir parsed), Init_logs, Get_input call,
            To_csv (get_input world call) ''NanoComp-data.tsv.gz''] @
           snd (make_plots world (change_identifiers (get_input world call) d)
                  (path_join (outdir parsed) (prefix parsed))
                  (parsed\<lparr>format := check_valid_format world (format parsed)\<rparr>) [])"
    if "raw parsed \<and> snd (main world parsed) = None"
  proof -
    from that obtain u where "main_body world parsed [] = (Inr u, fst (main world parsed))"
      and r: "raw parsed"
      using main_completes by blast
    from main_body_completes [OF this(1)] r show ?thesis by simp
  qed
  ultimately show ?thesis by blast
qed

theorem raw_export_before_remap_witness:
  "To_csv [read_R1, read_R2] ''NanoComp-data.tsv.gz''
     \<in> set (fst (main (quiet [read_R1, read_R2]) relabel_args)) \<and>
   snd (main (quiet [read_R1, read_R2]) relabel_args) = None \<and> raw relabel_args"
  using raw_export_before_remap [of "quiet [read_R1, read_R2]" relabel_args]
  by (simp add: main_relabel_args)

text \<open>
  The exported table is not the table after remapping and derivation: with a mapping
  of run \<^verbatim>\<open>R1\<close> to \<^verbatim>\<open>SampleX\<close>, the exported rows keep the labels \<^verbatim>\<open>A\<close> and \<^verbatim>\<open>B\<close> and
  have no derived column.
\<close>

theorem raw_export_counterexample:
  "To_csv [read_R1, read_R2] ''NanoComp-data.tsv.gz''
     \<in> set (fst (main (quiet [read_R1, read_R2]) relabel_args)) \<and>
   split_runs relabel_args = Some relabel_file \<and>
   validate_split_runs_file relabel_file = Inr [(''R1'', ''SampleX'')] \<and>
   map dataset [read_R1, read_R2] = [''A'', ''B''] \<and>
   map dataset (add_log_length (change_identifiers [read_R1, read_R2] [(''R1'', ''SampleX'')]))
     = [''SampleX'', ''B''] \<and>
   map log_length [read_R1, read_R2] = [None, None] \<and>
   map log_length (add_log_length (change_identifiers [read_R1, read_R2] [(''R1'', ''SampleX'')]))
     = [Some (np_log10 1000), Some (np_log10 10)]"
  by (simp add: main_relabel_args validate_relabel_file)
     (simp add: relabel_args_def read_R1_def read_R2_def add_log_length_def set_dataset_where_def)

end
